theory Spec2Isabelle
  imports Main
begin

section \<open>Python string operations used by the dispatcher\<close>

text \<open>
  Paths are Python \<open>str\<close> values, modelled as \<open>string\<close>. The only separator the
  dispatcher and the WSGI helpers ever pass is the one-character string \<open>'/'\<close>.
\<close>

definition slash :: char where
  "slash = CHR ''/''"

text \<open>\<open>s.lstrip('/')\<close>\<close>

definition lstrip_slash :: "string \<Rightarrow> string" where
  "lstrip_slash s = dropWhile (\<lambda>c. c = slash) s"

text \<open>
  \<open>s.split('/', 1)\<close>: cut at the first separator, if there is one. The result is never
  the empty list.
\<close>

definition split1 :: "string \<Rightarrow> string list" where
  "split1 s =
     (if slash \<in> set s
      then [takeWhile (\<lambda>c. c \<noteq> slash) s, tl (dropWhile (\<lambda>c. c \<noteq> slash) s)]
      else [s])"

text \<open>
  \<open>s.rpartition('/')\<close> restricted to the case that matters for \<open>rsplit\<close>: the text
  before the last separator and the text after it, or \<open>None\<close> when \<open>s\<close> holds no
  separator.
\<close>

definition rpartition :: "string \<Rightarrow> (string \<times> string) option" where
  "rpartition s =
     (if slash \<in> set s
      then Some (rev (tl (dropWhile (\<lambda>c. c \<noteq> slash) (rev s))),
                 rev (takeWhile (\<lambda>c. c \<noteq> slash) (rev s)))
      else None)"

text \<open>\<open>s.rsplit('/', n)\<close>: split at the last \<open>n\<close> separators at most, from the right.\<close>

fun rsplit :: "string \<Rightarrow> nat \<Rightarrow> string list" where
  "rsplit s 0 = [s]"
| "rsplit s (Suc n) =
     (case rpartition s of
        None \<Rightarrow> [s]
      | Some (pre, post) \<Rightarrow> rsplit pre n @ [post])"

text \<open>\<open>'/'.join(parts)\<close>, the inverse the properties of \<open>rsplit\<close> are stated with.\<close>

fun join_slash :: "string list \<Rightarrow> string" where
  "join_slash [] = []"
| "join_slash [x] = x"
| "join_slash (x # y # ys) = x @ slash # join_slash (y # ys)"

section \<open>The WSGI environment and the werkzeug path helpers\<close>

text \<open>
  The dispatcher reads and writes two keys of the WSGI \<open>environ\<close> dictionary,
  \<open>PATH_INFO\<close> and \<open>SCRIPT_NAME\<close>; a key may be missing. The helpers
  \<open>get_path_info\<close>, \<open>peek_path_info\<close> and \<open>pop_path_info\<close> belong to werkzeug
  (\<open>werkzeug.wsgi\<close>), not to this repository; they are written here after the library's
  code. The library also re-decodes the WSGI string (latin-1 to UTF-8); that step is the
  identity on ASCII paths and is left out.
\<close>

record environ =
  PATH_INFO :: "string option"
  SCRIPT_NAME :: "string option"

text \<open>\<open>environ.get(key, '')\<close>\<close>

definition get_or_empty :: "string option \<Rightarrow> string" where
  "get_or_empty v = (case v of None \<Rightarrow> [] | Some s \<Rightarrow> s)"

definition get_path_info :: "environ \<Rightarrow> string" where
  "get_path_info e = get_or_empty (PATH_INFO e)"

text \<open>
  \<open>peek_path_info\<close>: \<open>segments = environ.get('PATH_INFO', '').lstrip('/').split('/', 1)\<close>,
  then \<open>segments[0]\<close> (the list is never empty).
\<close>

definition peek_path_info :: "environ \<Rightarrow> string" where
  "peek_path_info e =
     (case split1 (lstrip_slash (get_or_empty (PATH_INFO e))) of
        [] \<Rightarrow> []
      | seg # _ \<Rightarrow> seg)"

text \<open>
  \<open>pop_path_info\<close>: returns the segment it removed (\<open>None\<close> when \<open>PATH_INFO\<close> is missing
  or empty, and then nothing is written) and the environment after the in-place update.
  Leading slashes move to \<open>SCRIPT_NAME\<close> together with the segment.
\<close>

definition pop_path_info :: "environ \<Rightarrow> string option \<times> environ" where
  "pop_path_info e =
     (case PATH_INFO e of
        None \<Rightarrow> (None, e)
      | Some old_path \<Rightarrow>
          if old_path = [] then (None, e)
          else
            let script_name = get_or_empty (SCRIPT_NAME e);
                path = lstrip_slash old_path;
                script_name' =
                  (if path \<noteq> old_path
                   then script_name @ replicate (length old_path - length path) slash
                   else script_name)
            in if slash \<notin> set path
               then (Some path,
                     e\<lparr>PATH_INFO := Some [], SCRIPT_NAME := Some (script_name' @ path)\<rparr>)
               else
                 let segment = takeWhile (\<lambda>c. c \<noteq> slash) path;
                     rest = tl (dropWhile (\<lambda>c. c \<noteq> slash) path)
                 in (Some segment,
                     e\<lparr>PATH_INFO := Some (slash # rest),
                       SCRIPT_NAME := Some (script_name' @ segment)\<rparr>))"

section \<open>The root-page test\<close>

text \<open>
  \<open>Dispatcher.__is_main_page\<close>:
  \<^verbatim>\<open>
  path = get_path_info(environ)
  splitted = path.rsplit('/', 2)
  return len(splitted) == 2 or (len(splitted) == 3 and splitted[-1] == '')
  \<close>
\<close>

definition is_main_page :: "environ \<Rightarrow> bool" where
  "is_main_page e =
     (let path = get_path_info e;
          splitted = rsplit path 2
      in length splitted = 2 \<or> (length splitted = 3 \<and> last splitted = []))"

section \<open>Identifier validation\<close>

text \<open>
  \<open>name_pattern = re.compile(os.getenv('ALLOWED_APPNAME_PATTERN', '^[a-zA-Z0-9_-]+$'))\<close>.
  The pattern is configuration, so the dispatcher below takes the test
  \<open>re.match(name_pattern, name)\<close> as a predicate on names. The default pattern is written
  out: one or more allowed characters up to the end of the string, where Python's \<open>$\<close>
  also matches just before a newline that ends the string.
\<close>

definition allowed_char :: "char \<Rightarrow> bool" where
  "allowed_char c =
     (c \<in> set ''abcdefghijklmnopqrstuvwxyzABCDEFGHIJKLMNOPQRSTUVWXYZ0123456789_-'')"

definition default_name_pattern :: "string \<Rightarrow> bool" where
  "default_name_pattern name =
     (let body = takeWhile allowed_char name;
          rest = dropWhile allowed_char name
      in body \<noteq> [] \<and> (rest = [] \<or> rest = [CHR 0x0A]))"

section \<open>Collaborators of the dispatcher\<close>

text \<open>
  \<open>dashapp_deserializer\<close>, \<open>build_dashapp_server_configs\<close>, \<open>create_api_app\<close> and
  \<open>get_logger\<close> are imported by \<open>dispatcher.py\<close> from other modules, and the collection is
  handed to the constructor. The dispatcher is modelled over what they answer: their
  results are parameters, and the calls made on them are recorded.

  A stored document is a dictionary from field names to values; \<open>find_one\<close> returns a
  document, returns \<open>None\<close>, or raises a \<open>PyMongoError\<close>.
\<close>

type_synonym document = "(string \<times> string) list"

datatype find_outcome = Raises string | Returns "document option"

datatype error = UnboundLocalError | BuildError string

text \<open>
  A built application is a fresh Python object: \<open>ident\<close> is its identity (the number of
  applications built before it in this process), \<open>uid\<close> the tenant it was configured
  for and \<open>blob\<close> the serialized definition it was built from.
\<close>

datatype handler = Handler (ident: nat) (uid: string) (blob: string)

text \<open>
  What \<open>get_application\<close> can hand to \<open>__call__\<close>, and what \<open>__call__\<close> can invoke:
  the default \<open>NotFound()\<close>, a \<open>BadRequest()\<close>, the fixed API application
  (\<open>self.api\<close>), or the Flask server of a built application.
\<close>

datatype wsgi_app = NotFoundApp | BadRequestApp | ApiApp | DashApp handler

text \<open>Calls the dispatcher makes on its collaborators, in the order it makes them.\<close>

datatype log_record =
    Info_special string
  | Info_not_allowed
  | Info_expired string
  | Info_got string
  | Warning string

datatype event = Log log_record | Find_one string | Deserialize string string

text \<open>
  Everything outside the dispatcher that one request depends on: what the collection
  answers, whether \<open>dashapp_deserializer\<close> (called with the server configuration that
  \<open>build_dashapp_server_configs\<close> makes for the tenant) returns or raises, and what
  \<open>datetime.utcnow()\<close> returns at each of its two call sites, the expiry test and the
  installation of a new entry. Times and durations are counted in microseconds.
\<close>

record world =
  find_one :: "string \<Rightarrow> find_outcome"
  dashapp_deserializer :: "string \<Rightarrow> string \<Rightarrow> error + unit"
  utcnow_expiry :: int
  utcnow_added :: int

section \<open>The dispatcher\<close>

text \<open>An entry of \<open>self.instances\<close>: \<open>{'app': app, 'added': datetime.utcnow()}\<close>.\<close>

record cached_instance =
  app :: handler
  added :: int

text \<open>
  The dispatcher object: \<open>instances\<close> and \<open>retention_period\<close> are its attributes;
  \<open>events\<close> records the calls made so far on the logger, the collection and the
  deserializer, and \<open>allocated\<close> counts the applications built so far.
\<close>

record dispatcher =
  instances :: "string \<rightharpoonup> cached_instance"
  retention_period :: int
  events :: "event list"
  allocated :: nat

definition RETENTION_PERIOD_MIN :: int where
  "RETENTION_PERIOD_MIN = 60"

text \<open>\<open>timedelta(minutes=m)\<close>\<close>

definition timedelta_minutes :: "int \<Rightarrow> int" where
  "timedelta_minutes m = m * 60 * 1000000"

text \<open>
  \<open>Dispatcher.__init__\<close>; the argument is \<open>os.getenv('RETENTION_PERIOD_MIN')\<close> read as
  an integer, \<open>None\<close> when the variable is not set.
\<close>

definition init :: "int option \<Rightarrow> dispatcher" where
  "init env_minutes =
     \<lparr>instances = Map.empty,
      retention_period =
        timedelta_minutes (case env_minutes of None \<Rightarrow> RETENTION_PERIOD_MIN | Some m \<Rightarrow> m),
      events = [],
      allocated = 0\<rparr>"

definition emit :: "event \<Rightarrow> dispatcher \<Rightarrow> dispatcher" where
  "emit ev s = s\<lparr>events := events s @ [ev]\<rparr>"

text \<open>
  The value of \<open>res['dashapp']\<close> where the guard
  \<open>(not res) or ('dashapp' not in res)\<close> is false, \<open>None\<close> where the guard is true.
  \<open>not res\<close> holds for \<open>None\<close> and for the empty document.
\<close>

definition dashapp_of :: "document option \<Rightarrow> string option" where
  "dashapp_of res =
     (case res of
        None \<Rightarrow> None
      | Some doc \<Rightarrow> if doc = [] then None else map_of doc ''dashapp'')"

text \<open>
  \<open>Dispatcher.__get_app_from_db\<close>. The \<open>except PyMongoError\<close> branch logs the error and
  falls through to the test of \<open>res\<close>, which was never assigned: reading it raises
  \<open>UnboundLocalError\<close>.
\<close>

definition get_app_from_db ::
  "world \<Rightarrow> dispatcher \<Rightarrow> string \<Rightarrow> (error + handler option) \<times> dispatcher" where
  "get_app_from_db w s viz_uid =
     (let s1 = emit (Find_one viz_uid) s in
      case find_one w viz_uid of
        Raises err \<Rightarrow> (Inl UnboundLocalError, emit (Log (Warning err)) s1)
      | Returns res \<Rightarrow>
          (case dashapp_of res of
             None \<Rightarrow> (Inr None, s1)
           | Some b \<Rightarrow>
               let s2 = emit (Deserialize b viz_uid) s1 in
               case dashapp_deserializer w b viz_uid of
                 Inl e \<Rightarrow> (Inl e, s2)
               | Inr _ \<Rightarrow>
                   (Inr (Some (Handler (allocated s2) viz_uid b)),
                    s2\<lparr>allocated := Suc (allocated s2)\<rparr>)))"

text \<open>
  The expiry test of \<open>get_application\<close>:
  \<open>instance and __is_main_page(environ) and (utcnow() - instance['added']) > retention_period\<close>.
\<close>

definition expired :: "world \<Rightarrow> dispatcher \<Rightarrow> environ \<Rightarrow> cached_instance option \<Rightarrow> bool" where
  "expired w s e inst =
     (case inst of
        None \<Rightarrow> False
      | Some i \<Rightarrow> is_main_page e \<and> utcnow_expiry w - added i > retention_period s)"

text \<open>
  \<open>Dispatcher.get_application\<close>. The result is the application (\<open>None\<close> as in the
  source) or the exception that left the method, with the dispatcher as the method left it.
\<close>

definition get_application ::
  "(string \<Rightarrow> bool) \<Rightarrow> world \<Rightarrow> dispatcher \<Rightarrow> environ
     \<Rightarrow> (error + wsgi_app option) \<times> dispatcher" where
  "get_application name_pattern w s e =
     (let name = peek_path_info e in
      if name = [] then (Inr None, s)
      else if name = ''api'' then (Inr (Some ApiApp), emit (Log (Info_special name)) s)
      else if name_pattern name then
        (let inst = instances s name;
             gone = expired w s e inst;
             s1 = (if gone
                   then (emit (Log (Info_expired name)) s)
                          \<lparr>instances := (instances s)(name := None)\<rparr>
                   else s)
         in case (if gone then None else inst) of
              None \<Rightarrow>
                (case get_app_from_db w s1 name of
                   (Inl err, s2) \<Rightarrow> (Inl err, s2)
                 | (Inr None, s2) \<Rightarrow> (Inr None, s2)
                 | (Inr (Some a), s2) \<Rightarrow>
                     (Inr (Some (DashApp a)),
                      emit (Log (Info_got name))
                        (s2\<lparr>instances :=
                              (instances s2)(name \<mapsto> \<lparr>app = a, added = utcnow_added w\<rparr>)\<rparr>)))
            | Some i \<Rightarrow> (Inr (Some (DashApp (app i))), s1))
      else (Inr (Some BadRequestApp), emit (Log Info_not_allowed) s))"

text \<open>
  \<open>Dispatcher.__call__\<close>: the application that is invoked and the environment it is
  invoked with, or the exception that left the dispatcher.
\<close>

definition call ::
  "(string \<Rightarrow> bool) \<Rightarrow> world \<Rightarrow> dispatcher \<Rightarrow> environ
     \<Rightarrow> (error + wsgi_app \<times> environ) \<times> dispatcher" where
  "call name_pattern w s e =
     (case get_application name_pattern w s e of
        (Inl err, s') \<Rightarrow> (Inl err, s')
      | (Inr None, s') \<Rightarrow> (Inr (NotFoundApp, e), s')
      | (Inr (Some a), s') \<Rightarrow> (Inr (a, snd (pop_path_info e)), s'))"

text \<open>
  The dispatcher states a process can be in: the state \<open>__init__\<close> leaves, and every
  state a request leaves, whatever the request, the collaborators' answers and the clock.
\<close>

inductive reachable :: "(string \<Rightarrow> bool) \<Rightarrow> dispatcher \<Rightarrow> bool"
  for name_pattern :: "string \<Rightarrow> bool" where
  reachable_init: "reachable name_pattern (init env_minutes)"
| reachable_call:
    "reachable name_pattern s \<Longrightarrow> snd (call name_pattern w s e) = s'
       \<Longrightarrow> reachable name_pattern s'"

section \<open>Splitting and joining paths\<close>

lemma rpartition_None: "(rpartition s = None) = (slash \<notin> set s)"
  by (simp add: rpartition_def)

lemma rpartition_Some:
  assumes "rpartition s = Some (pre, post)"
  shows "s = pre @ slash # post" and "slash \<notin> set post"
proof -
  let ?P = "\<lambda>c. c \<noteq> slash"
  from assms have mem: "slash \<in> set s"
    and pre: "pre = rev (tl (dropWhile ?P (rev s)))"
    and post: "post = rev (takeWhile ?P (rev s))"
    by (auto simp: rpartition_def split: if_splits)
  from mem have ne: "dropWhile ?P (rev s) \<noteq> []" by simp
  then have "hd (dropWhile ?P (rev s)) = slash"
    using hd_dropWhile [of ?P "rev s"] by simp
  with ne have dw: "dropWhile ?P (rev s) = slash # tl (dropWhile ?P (rev s))"
    by (cases "dropWhile ?P (rev s)") auto
  have "rev s = takeWhile ?P (rev s) @ dropWhile ?P (rev s)" by simp
  then have "rev s = rev post @ slash # rev pre"
    using dw pre post by simp
  then have "rev (rev s) = rev (rev post @ slash # rev pre)" by simp
  then show "s = pre @ slash # post" by simp
  show "slash \<notin> set post"
    unfolding post using set_takeWhileD [of slash ?P "rev s"] by auto
qed

lemma rsplit_nonempty: "rsplit s n \<noteq> []"
  by (cases n) (auto split: option.splits)

lemma join_slash_snoc: "xs \<noteq> [] \<Longrightarrow> join_slash (xs @ [y]) = join_slash xs @ slash # y"
  by (induction xs rule: join_slash.induct) auto

lemma join_rsplit: "join_slash (rsplit s n) = s"
proof (induction n arbitrary: s)
  case 0
  show ?case by simp
next
  case (Suc n)
  show ?case
  proof (cases "rpartition s")
    case None
    then show ?thesis by simp
  next
    case (Some pp)
    obtain pre post where pp: "pp = (pre, post)" by (cases pp)
    with Some rpartition_Some(1) [of s pre post] have "s = pre @ slash # post" by simp
    with Some pp Suc [of pre] show ?thesis
      by (simp add: join_slash_snoc rsplit_nonempty)
  qed
qed

lemma count_rpartition:
  "rpartition s = Some (pre, post) \<Longrightarrow> count_list s slash = Suc (count_list pre slash)"
  using rpartition_Some [of s pre post] by (simp add: count_list_0_iff)

lemma length_rsplit: "length (rsplit s n) = min (Suc n) (Suc (count_list s slash))"
proof (induction n arbitrary: s)
  case 0
  show ?case by simp
next
  case (Suc n)
  show ?case
  proof (cases "rpartition s")
    case None
    then have "count_list s slash = 0" by (simp add: rpartition_None count_list_0_iff)
    with None show ?thesis by simp
  next
    case (Some pp)
    obtain pre post where pp: "pp = (pre, post)" by (cases pp)
    with Some count_rpartition [of s pre post] Suc [of pre] show ?thesis by simp
  qed
qed

lemma tl_rsplit_no_slash: "c \<in> set (tl (rsplit s n)) \<Longrightarrow> slash \<notin> set c"
proof (induction n arbitrary: s)
  case 0
  then show ?case by simp
next
  case (Suc n)
  show ?case
  proof (cases "rpartition s")
    case None
    with Suc.prems show ?thesis by simp
  next
    case (Some pp)
    obtain pre post where pp: "pp = (pre, post)" by (cases pp)
    with Some Suc.prems have "c \<in> set (tl (rsplit pre n)) \<or> c = post"
      by (auto simp: rsplit_nonempty)
    with Suc.IH [of pre] rpartition_Some(2) [of s pre post] Some pp show ?thesis by auto
  qed
qed

lemma last_rsplit_Suc:
  "last (rsplit s (Suc n)) = [] \<longleftrightarrow> (s = [] \<or> last s = slash)"
proof (cases "rpartition s")
  case None
  then have ns: "slash \<notin> set s" by (simp add: rpartition_None)
  have "last s \<noteq> slash" if "s \<noteq> []"
    using ns last_in_set [OF that] by auto
  with None show ?thesis by auto
next
  case (Some pp)
  obtain pre post where pp: "pp = (pre, post)" by (cases pp)
  with Some rpartition_Some [of s pre post] have s: "s = pre @ slash # post" and np: "slash \<notin> set post" by simp_all
  have "last post \<noteq> slash" if "post \<noteq> []"
    using np last_in_set [OF that] by auto
  with Some pp s show ?thesis by auto
qed

lemma is_main_page_iff:
  "is_main_page e \<longleftrightarrow>
     (count_list (get_path_info e) slash = 1 \<or>
      (2 \<le> count_list (get_path_info e) slash \<and> last (get_path_info e) = slash))"
proof -
  have two: "(2::nat) = Suc (Suc 0)" by simp
  have ne: "2 \<le> count_list (get_path_info e) slash \<Longrightarrow> get_path_info e \<noteq> []"
    by auto
  show ?thesis
    unfolding is_main_page_def Let_def two last_rsplit_Suc length_rsplit
    using ne by (auto simp: min_def)
qed

section \<open>The shape of a root-page path\<close>

lemma rsplit_demo_root: "rsplit ''/demo1/'' 2 = [[], ''demo1'', []]"
  by code_simp

text \<open>
  C6: the root-page test looks at the shape of the path only. The path is split from the
  right at its last two slashes at most, so into at most three components whose join is the
  path again and of which only the first can still hold a slash; the request is a root page
  iff there are exactly two components, or exactly three of which the last is empty.
\<close>

theorem is_main_page_path_shape:
  "is_main_page e =
     (length (rsplit (get_path_info e) 2) = 2 \<or>
      (length (rsplit (get_path_info e) 2) = 3 \<and> last (rsplit (get_path_info e) 2) = []))
   \<and> join_slash (rsplit (get_path_info e) 2) = get_path_info e
   \<and> length (rsplit (get_path_info e) 2) = min 3 (Suc (count_list (get_path_info e) slash))
   \<and> (\<forall>c \<in> set (tl (rsplit (get_path_info e) 2)). slash \<notin> set c)"
proof -
  have "length (rsplit (get_path_info e) 2) = min 3 (Suc (count_list (get_path_info e) slash))"
    by (simp add: length_rsplit)
  moreover have "\<forall>c \<in> set (tl (rsplit (get_path_info e) 2)). slash \<notin> set c"
    using tl_rsplit_no_slash by blast
  ultimately show ?thesis
    by (simp add: is_main_page_def Let_def join_rsplit)
qed

theorem is_main_page_path_shape_witness:
  "is_main_page \<lparr>PATH_INFO = Some ''/demo1/'', SCRIPT_NAME = None\<rparr>
   \<and> rsplit ''/demo1/'' 2 = [[], ''demo1'', []]
   \<and> join_slash [[], ''demo1'', []] = ''/demo1/''
   \<and> ''demo1'' \<in> set (tl (rsplit ''/demo1/'' 2))
   \<and> slash \<notin> set ''demo1''"
  using is_main_page_path_shape [of "\<lparr>PATH_INFO = Some ''/demo1/'', SCRIPT_NAME = None\<rparr>"]
    rsplit_demo_root
  by (simp add: get_path_info_def get_or_empty_def slash_def)

section \<open>Resolution against the backing store\<close>

lemma instances_emit: "instances (emit ev s) = instances s"
  by (simp add: emit_def)

lemma allocated_emit: "allocated (emit ev s) = allocated s"
  by (simp add: emit_def)

lemma events_emit: "events (emit ev s) = events s @ [ev]"
  by (simp add: emit_def)

lemma retention_period_emit: "retention_period (emit ev s) = retention_period s"
  by (simp add: emit_def)

lemma get_app_from_db_raises:
  "find_one w n = Raises err \<Longrightarrow>
   get_app_from_db w s n = (Inl UnboundLocalError, emit (Log (Warning err)) (emit (Find_one n) s))"
  by (simp add: get_app_from_db_def)

lemma get_app_from_db_absent:
  "find_one w n = Returns res \<Longrightarrow> dashapp_of res = None \<Longrightarrow>
   get_app_from_db w s n = (Inr None, emit (Find_one n) s)"
  by (simp add: get_app_from_db_def)

lemma get_app_from_db_built:
  "find_one w n = Returns res \<Longrightarrow> dashapp_of res = Some b \<Longrightarrow>
   dashapp_deserializer w b n = Inr u \<Longrightarrow>
   get_app_from_db w s n =
     (Inr (Some (Handler (allocated s) n b)),
      (emit (Deserialize b n) (emit (Find_one n) s))\<lparr>allocated := Suc (allocated s)\<rparr>)"
  by (simp add: get_app_from_db_def Let_def allocated_emit)

lemma get_app_from_db_instances: "instances (snd (get_app_from_db w s n)) = instances s"
  by (simp add: get_app_from_db_def Let_def instances_emit
      split: find_outcome.splits option.splits sum.splits)

lemma get_app_from_db_retention:
  "retention_period (snd (get_app_from_db w s n)) = retention_period s"
  by (simp add: get_app_from_db_def Let_def retention_period_emit
      split: find_outcome.splits option.splits sum.splits)

section \<open>The branches of get_application\<close>

lemma get_application_empty:
  "peek_path_info e = [] \<Longrightarrow> get_application name_pattern w s e = (Inr None, s)"
  by (simp add: get_application_def)

lemma get_application_api:
  "peek_path_info e = ''api'' \<Longrightarrow>
   get_application name_pattern w s e = (Inr (Some ApiApp), emit (Log (Info_special ''api'')) s)"
  by (simp add: get_application_def)

lemma get_application_rejected:
  "peek_path_info e = name \<Longrightarrow> name \<noteq> [] \<Longrightarrow> name \<noteq> ''api'' \<Longrightarrow> \<not> name_pattern name \<Longrightarrow>
   get_application name_pattern w s e = (Inr (Some BadRequestApp), emit (Log Info_not_allowed) s)"
  by (simp add: get_application_def)

lemma get_application_hit:
  "peek_path_info e = name \<Longrightarrow> name \<noteq> [] \<Longrightarrow> name \<noteq> ''api'' \<Longrightarrow> name_pattern name \<Longrightarrow>
   instances s name = Some i \<Longrightarrow> \<not> expired w s e (Some i) \<Longrightarrow>
   get_application name_pattern w s e = (Inr (Some (DashApp (app i))), s)"
  by (simp add: get_application_def Let_def)

lemma get_application_miss:
  "peek_path_info e = name \<Longrightarrow> name \<noteq> [] \<Longrightarrow> name \<noteq> ''api'' \<Longrightarrow> name_pattern name \<Longrightarrow>
   instances s name = None \<Longrightarrow>
   get_application name_pattern w s e =
     (case get_app_from_db w s name of
        (Inl err, s2) \<Rightarrow> (Inl err, s2)
      | (Inr None, s2) \<Rightarrow> (Inr None, s2)
      | (Inr (Some a), s2) \<Rightarrow>
          (Inr (Some (DashApp a)),
           emit (Log (Info_got name))
             (s2\<lparr>instances := (instances s2)(name \<mapsto> \<lparr>app = a, added = utcnow_added w\<rparr>)\<rparr>)))"
  by (simp add: get_application_def Let_def expired_def)

lemma get_application_expired:
  "peek_path_info e = name \<Longrightarrow> name \<noteq> [] \<Longrightarrow> name \<noteq> ''api'' \<Longrightarrow> name_pattern name \<Longrightarrow>
   expired w s e (instances s name) \<Longrightarrow>
   get_application name_pattern w s e =
     (case get_app_from_db w
             ((emit (Log (Info_expired name)) s)\<lparr>instances := (instances s)(name := None)\<rparr>)
             name of
        (Inl err, s2) \<Rightarrow> (Inl err, s2)
      | (Inr None, s2) \<Rightarrow> (Inr None, s2)
      | (Inr (Some a), s2) \<Rightarrow>
          (Inr (Some (DashApp a)),
           emit (Log (Info_got name))
             (s2\<lparr>instances := (instances s2)(name \<mapsto> \<lparr>app = a, added = utcnow_added w\<rparr>)\<rparr>)))"
  by (simp add: get_application_def Let_def)

lemma install_other_key:
  assumes "k \<noteq> name"
  shows "instances (snd (case get_app_from_db w s1 name of
        (Inl err, s2) \<Rightarrow> (Inl err, s2)
      | (Inr None, s2) \<Rightarrow> (Inr None, s2)
      | (Inr (Some a), s2) \<Rightarrow>
          (Inr (Some (DashApp a)),
           emit (Log (Info_got name))
             (s2\<lparr>instances := (instances s2)(name \<mapsto> \<lparr>app = a, added = t\<rparr>)\<rparr>)))) k
     = instances s1 k"
proof -
  obtain r s2 where db: "get_app_from_db w s1 name = (r, s2)"
    by (cases "get_app_from_db w s1 name")
  with get_app_from_db_instances [of w s1 name] have "instances s2 = instances s1"
    by simp
  with db assms show ?thesis
    by (simp add: instances_emit split: sum.splits option.splits)
qed

lemma get_application_other_key:
  assumes "k \<noteq> peek_path_info e"
  shows "instances (snd (get_application name_pattern w s e)) k = instances s k"
proof -
  let ?name = "peek_path_info e"
  consider (empty) "?name = []"
    | (api) "?name = ''api''"
    | (rejected) "?name \<noteq> []" "?name \<noteq> ''api''" "\<not> name_pattern ?name"
    | (gone) "?name \<noteq> []" "?name \<noteq> ''api''" "name_pattern ?name"
        "expired w s e (instances s ?name)"
    | (miss) "?name \<noteq> []" "?name \<noteq> ''api''" "name_pattern ?name"
        "instances s ?name = None"
    | (hit) i where "?name \<noteq> []" "?name \<noteq> ''api''" "name_pattern ?name"
        "instances s ?name = Some i" "\<not> expired w s e (Some i)"
    by (cases "instances s ?name") auto
  then show ?thesis
  proof cases
    case empty
    then show ?thesis by (simp add: get_application_empty)
  next
    case api
    then show ?thesis by (simp add: get_application_api instances_emit)
  next
    case rejected
    then show ?thesis by (simp add: get_application_rejected instances_emit)
  next
    case gone
    then show ?thesis
      using assms
      by (simp add: get_application_expired [OF refl] install_other_key instances_emit)
  next
    case miss
    then show ?thesis
      using assms by (simp add: get_application_miss [OF refl] install_other_key)
  next
    case hit
    then show ?thesis by (simp add: get_application_hit [OF refl])
  qed
qed

lemma get_application_api_key:
  "instances s ''api'' = None \<Longrightarrow>
   instances (snd (get_application name_pattern w s e)) ''api'' = None"
proof (cases "peek_path_info e = ''api''")
  case True
  assume "instances s ''api'' = None"
  with True show ?thesis by (simp add: get_application_api instances_emit)
next
  case False
  assume "instances s ''api'' = None"
  with False get_application_other_key [of "''api''" e name_pattern w s] show ?thesis
    by simp
qed

lemma call_state: "snd (call name_pattern w s e) = snd (get_application name_pattern w s e)"
  by (simp add: call_def split: prod.splits sum.splits option.splits)

lemma reachable_no_api: "reachable name_pattern s \<Longrightarrow> instances s ''api'' = None"
proof (induction rule: reachable.induct)
  case (reachable_init env_minutes)
  show ?case by (simp add: init_def)
next
  case (reachable_call s w e s')
  then show ?case
    using get_application_api_key [of s name_pattern w e] by (simp add: call_state)
qed

section \<open>Evaluation on the example requests\<close>

lemma peek_demo_root:
  "peek_path_info \<lparr>PATH_INFO = Some ''/demo1/'', SCRIPT_NAME = Some []\<rparr> = ''demo1''"
  by code_simp

lemma default_name_pattern_demo: "default_name_pattern ''demo1''"
  by code_simp

lemma is_main_page_demo_root:
  "is_main_page \<lparr>PATH_INFO = Some ''/demo1/'', SCRIPT_NAME = Some []\<rparr>"
  by code_simp

lemma peek_demo_asset:
  "peek_path_info \<lparr>PATH_INFO = Some ''/demo1/assets/x.js'', SCRIPT_NAME = Some []\<rparr> = ''demo1''"
  by code_simp

lemma not_main_page_demo_asset:
  "\<not> is_main_page \<lparr>PATH_INFO = Some ''/demo1/assets/x.js'', SCRIPT_NAME = Some []\<rparr>"
  by code_simp

section \<open>A failing backing store\<close>

text \<open>
  C1: the claim is that a lookup that raises a storage error ends like a lookup that finds
  nothing, in a not-found response. The code logs the warning, but then reads the variable
  the failed lookup never assigned: for a valid tenant without a cache entry the request
  ends in \<open>UnboundLocalError\<close>, which leaves the dispatcher, while the same request against
  a store that holds no record ends in the not-found application.
\<close>

theorem storage_error_leaves_dispatcher:
  assumes "peek_path_info e = name" and "name \<noteq> []" and "name \<noteq> ''api''"
    and "name_pattern name" and "instances s name = None"
    and "find_one w name = Raises err"
  shows "call name_pattern w s e =
           (Inl UnboundLocalError, emit (Log (Warning err)) (emit (Find_one name) s))
         \<and> call name_pattern (w\<lparr>find_one := (find_one w)(name := Returns None)\<rparr>) s e =
           (Inr (NotFoundApp, e), emit (Find_one name) s)"
proof -
  have "get_application name_pattern w s e =
          (Inl UnboundLocalError, emit (Log (Warning err)) (emit (Find_one name) s))"
    using assms by (simp add: get_application_miss get_app_from_db_raises)
  moreover have "get_application name_pattern
                   (w\<lparr>find_one := (find_one w)(name := Returns None)\<rparr>) s e =
                 (Inr None, emit (Find_one name) s)"
    using assms
    by (simp add: get_application_miss get_app_from_db_absent [where res = None] dashapp_of_def)
  ultimately show ?thesis by (simp add: call_def)
qed

theorem storage_error_leaves_dispatcher_witness:
  "peek_path_info \<lparr>PATH_INFO = Some ''/demo1/'', SCRIPT_NAME = Some []\<rparr> = ''demo1''
   \<and> default_name_pattern ''demo1''
   \<and> instances (init None) ''demo1'' = None
   \<and> call default_name_pattern
        \<lparr>find_one = (\<lambda>u. Raises ''timeout''), dashapp_deserializer = (\<lambda>b u. Inr ()),
         utcnow_expiry = 0, utcnow_added = 0\<rparr>
        (init None)
        \<lparr>PATH_INFO = Some ''/demo1/'', SCRIPT_NAME = Some []\<rparr> =
      (Inl UnboundLocalError,
       emit (Log (Warning ''timeout'')) (emit (Find_one ''demo1'') (init None)))"
  using storage_error_leaves_dispatcher
    [of "\<lparr>PATH_INFO = Some ''/demo1/'', SCRIPT_NAME = Some []\<rparr>" "''demo1''"
        default_name_pattern "init None"
        "\<lparr>find_one = (\<lambda>u. Raises ''timeout''), dashapp_deserializer = (\<lambda>b u. Inr ()),
          utcnow_expiry = 0, utcnow_added = 0\<rparr>" "''timeout''"]
    peek_demo_root default_name_pattern_demo
  by (simp add: init_def)

section \<open>A stored record without a definition\<close>

lemma dashapp_of_no_field: "map_of doc ''dashapp'' = None \<Longrightarrow> dashapp_of (Some doc) = None"
  by (simp add: dashapp_of_def)

lemma expired_find_one_upd: "expired (w\<lparr>find_one := f\<rparr>) s e inst = expired w s e inst"
  by (simp add: expired_def split: option.splits)

text \<open>
  C10: a record that is stored for the requested tenant but has no \<open>dashapp\<close> field is
  treated like no record. The lookup returns \<open>None\<close> after the one call of \<open>find_one\<close>,
  the deserializer is not called, and from every dispatcher state the request ends exactly
  as it ends against a store without the record. Where the cache holds no entry for the
  tenant, or the entry has just expired, that end is the not-found application with the
  request untouched, and the cache gets no entry.
\<close>

theorem record_without_dashapp_is_absent:
  assumes "find_one w name = Returns (Some doc)" and "map_of doc ''dashapp'' = None"
    and "peek_path_info e = name" and "name \<noteq> []" and "name \<noteq> ''api''"
    and "name_pattern name"
  shows "get_app_from_db w s name = (Inr None, emit (Find_one name) s)
       \<and> call name_pattern w s e =
           call name_pattern (w\<lparr>find_one := (find_one w)(name := Returns None)\<rparr>) s e
       \<and> (instances s name = None \<longrightarrow>
            call name_pattern w s e = (Inr (NotFoundApp, e), emit (Find_one name) s))
       \<and> (expired w s e (instances s name) \<longrightarrow>
            call name_pattern w s e =
              (Inr (NotFoundApp, e),
               emit (Find_one name)
                 ((emit (Log (Info_expired name)) s)
                    \<lparr>instances := (instances s)(name := None)\<rparr>)))"
proof -
  let ?w' = "w\<lparr>find_one := (find_one w)(name := Returns None)\<rparr>"
  have db: "get_app_from_db w s0 name = (Inr None, emit (Find_one name) s0)" for s0
    using assms(1,2) by (simp add: get_app_from_db_absent dashapp_of_no_field)
  have db': "get_app_from_db ?w' s0 name = (Inr None, emit (Find_one name) s0)" for s0
    by (simp add: get_app_from_db_absent [where res = None] dashapp_of_def)
  have same: "get_application name_pattern w s e = get_application name_pattern ?w' s e"
    using assms(3)
    by (simp add: get_application_def Let_def db db' expired_find_one_upd
        split: option.splits)
  have miss: "get_application name_pattern w s e = (Inr None, emit (Find_one name) s)"
    if "instances s name = None"
    using assms(3-6) that by (simp add: get_application_miss db)
  have gone: "get_application name_pattern w s e =
      (Inr None,
       emit (Find_one name)
         ((emit (Log (Info_expired name)) s)\<lparr>instances := (instances s)(name := None)\<rparr>))"
    if "expired w s e (instances s name)"
    using assms(3-6) that by (simp add: get_application_expired db)
  show ?thesis
    using db same miss gone by (simp add: call_def)
qed

theorem record_without_dashapp_is_absent_witness:
  "map_of [(''uid'', ''demo1'')] ''dashapp'' = None
   \<and> instances (init None) ''demo1'' = None
   \<and> call default_name_pattern
        \<lparr>find_one = (\<lambda>u. Returns (Some [(''uid'', ''demo1'')])),
         dashapp_deserializer = (\<lambda>b u. Inr ()), utcnow_expiry = 0, utcnow_added = 0\<rparr>
        (init None)
        \<lparr>PATH_INFO = Some ''/demo1/'', SCRIPT_NAME = Some []\<rparr> =
      (Inr (NotFoundApp, \<lparr>PATH_INFO = Some ''/demo1/'', SCRIPT_NAME = Some []\<rparr>),
       emit (Find_one ''demo1'') (init None))
   \<and> expired
        \<lparr>find_one = (\<lambda>u. Returns (Some [(''uid'', ''demo1'')])),
         dashapp_deserializer = (\<lambda>b u. Inr ()),
         utcnow_expiry = 3600000001, utcnow_added = 3600000002\<rparr>
        ((init None)\<lparr>instances :=
            [''demo1'' \<mapsto> \<lparr>app = Handler 0 ''demo1'' ''blob1'', added = 0\<rparr>]\<rparr>)
        \<lparr>PATH_INFO = Some ''/demo1/'', SCRIPT_NAME = Some []\<rparr>
        (Some \<lparr>app = Handler 0 ''demo1'' ''blob1'', added = 0\<rparr>)
   \<and> fst (call default_name_pattern
        \<lparr>find_one = (\<lambda>u. Returns (Some [(''uid'', ''demo1'')])),
         dashapp_deserializer = (\<lambda>b u. Inr ()),
         utcnow_expiry = 3600000001, utcnow_added = 3600000002\<rparr>
        ((init None)\<lparr>instances :=
            [''demo1'' \<mapsto> \<lparr>app = Handler 0 ''demo1'' ''blob1'', added = 0\<rparr>]\<rparr>)
        \<lparr>PATH_INFO = Some ''/demo1/'', SCRIPT_NAME = Some []\<rparr>) =
      Inr (NotFoundApp, \<lparr>PATH_INFO = Some ''/demo1/'', SCRIPT_NAME = Some []\<rparr>)"
  using record_without_dashapp_is_absent
    [of "\<lparr>find_one = (\<lambda>u. Returns (Some [(''uid'', ''demo1'')])),
          dashapp_deserializer = (\<lambda>b u. Inr ()), utcnow_expiry = 0, utcnow_added = 0\<rparr>"
        "''demo1''" "[(''uid'', ''demo1'')]"
        "\<lparr>PATH_INFO = Some ''/demo1/'', SCRIPT_NAME = Some []\<rparr>"
        default_name_pattern "init None", THEN conjunct2, THEN conjunct2, THEN conjunct1]
    record_without_dashapp_is_absent
    [of "\<lparr>find_one = (\<lambda>u. Returns (Some [(''uid'', ''demo1'')])),
          dashapp_deserializer = (\<lambda>b u. Inr ()),
          utcnow_expiry = 3600000001, utcnow_added = 3600000002\<rparr>"
        "''demo1''" "[(''uid'', ''demo1'')]"
        "\<lparr>PATH_INFO = Some ''/demo1/'', SCRIPT_NAME = Some []\<rparr>"
        default_name_pattern
        "(init None)\<lparr>instances :=
            [''demo1'' \<mapsto> \<lparr>app = Handler 0 ''demo1'' ''blob1'', added = 0\<rparr>]\<rparr>",
        THEN conjunct2, THEN conjunct2, THEN conjunct2]
    peek_demo_root default_name_pattern_demo is_main_page_demo_root
  by (simp add: init_def expired_def timedelta_minutes_def RETENTION_PERIOD_MIN_def)

section \<open>The reserved name\<close>

lemma peek_api:
  "peek_path_info \<lparr>PATH_INFO = Some ''/api/list'', SCRIPT_NAME = Some []\<rparr> = ''api''"
  by code_simp

lemma pop_api:
  "snd (pop_path_info \<lparr>PATH_INFO = Some ''/api/list'', SCRIPT_NAME = Some []\<rparr>) =
     \<lparr>PATH_INFO = Some ''/list'', SCRIPT_NAME = Some ''/api''\<rparr>"
  by code_simp

text \<open>
  C7: a request whose first path segment is \<open>api\<close> gets the fixed API application,
  whatever the allow-pattern, the store and the cache hold: the only effect is the log
  line, so the pattern is not tested, the cache is neither read nor written and the store is
  not called. No reachable dispatcher state has \<open>api\<close> as a key of the cache.
\<close>

theorem api_bypasses_validation_and_cache:
  "(peek_path_info e = ''api'' \<longrightarrow>
      get_application name_pattern w s e =
        (Inr (Some ApiApp), emit (Log (Info_special ''api'')) s)
      \<and> call name_pattern w s e =
        (Inr (ApiApp, snd (pop_path_info e)), emit (Log (Info_special ''api'')) s)
      \<and> instances (snd (call name_pattern w s e)) = instances s
      \<and> events (snd (call name_pattern w s e)) = events s @ [Log (Info_special ''api'')])
   \<and> (reachable name_pattern s \<longrightarrow> instances s ''api'' = None)"
  by (simp add: call_def get_application_api instances_emit events_emit reachable_no_api)

theorem api_bypasses_validation_and_cache_witness:
  "peek_path_info \<lparr>PATH_INFO = Some ''/api/list'', SCRIPT_NAME = Some []\<rparr> = ''api''
   \<and> call (\<lambda>n. False)
        \<lparr>find_one = (\<lambda>u. Returns (Some [(''dashapp'', ''blob'')])),
         dashapp_deserializer = (\<lambda>b u. Inr ()), utcnow_expiry = 0, utcnow_added = 0\<rparr>
        (init None)
        \<lparr>PATH_INFO = Some ''/api/list'', SCRIPT_NAME = Some []\<rparr> =
      (Inr (ApiApp, \<lparr>PATH_INFO = Some ''/list'', SCRIPT_NAME = Some ''/api''\<rparr>),
       emit (Log (Info_special ''api'')) (init None))
   \<and> reachable (\<lambda>n. False) (init None)
   \<and> instances (init None) ''api'' = None"
  using api_bypasses_validation_and_cache
    [of "\<lparr>PATH_INFO = Some ''/api/list'', SCRIPT_NAME = Some []\<rparr>" "\<lambda>n. False"
        "\<lparr>find_one = (\<lambda>u. Returns (Some [(''dashapp'', ''blob'')])),
          dashapp_deserializer = (\<lambda>b u. Inr ()), utcnow_expiry = 0, utcnow_added = 0\<rparr>"
        "init None"]
    peek_api pop_api reachable_init [of "\<lambda>n. False" None]
  by simp

section \<open>Rejected identifiers\<close>

lemma question_mark_not_allowed: "\<not> allowed_char CHR ''?''"
  by code_simp

lemma default_name_pattern_question_mark:
  assumes "CHR ''?'' \<in> set name"
  shows "\<not> default_name_pattern name"
proof
  assume ok: "default_name_pattern name"
  have "set name = set (takeWhile allowed_char name) \<union> set (dropWhile allowed_char name)"
    using set_append [of "takeWhile allowed_char name" "dropWhile allowed_char name"] by simp
  with assms consider "CHR ''?'' \<in> set (takeWhile allowed_char name)"
    | "CHR ''?'' \<in> set (dropWhile allowed_char name)"
    by auto
  then show False
  proof cases
    case 1
    then have "allowed_char CHR ''?''" by (rule set_takeWhileD [THEN conjunct2])
    with question_mark_not_allowed show False by simp
  next
    case 2
    from ok have "dropWhile allowed_char name = [] \<or> dropWhile allowed_char name = [CHR 0x0A]"
      by (simp add: default_name_pattern_def Let_def del: dropWhile_eq_Nil_conv)
    with 2 show False by (elim disjE) (simp_all del: dropWhile_eq_Nil_conv)
  qed
qed

lemma peek_slash: "peek_path_info \<lparr>PATH_INFO = Some ''/'', SCRIPT_NAME = Some []\<rparr> = []"
  by code_simp

lemma peek_question:
  "peek_path_info \<lparr>PATH_INFO = Some ''/a?b/x'', SCRIPT_NAME = Some []\<rparr> = ''a?b''"
  by code_simp

lemma pop_question:
  "snd (pop_path_info \<lparr>PATH_INFO = Some ''/a?b/x'', SCRIPT_NAME = Some []\<rparr>) =
     \<lparr>PATH_INFO = Some ''/x'', SCRIPT_NAME = Some ''/a?b''\<rparr>"
  by code_simp

text \<open>
  C8, as the code has it: a first path segment that is not empty, is not \<open>api\<close> and fails
  the allow-pattern gets the bad-request application; the only effect is the log line, so
  the store is not called and the cache is untouched. Under the default pattern every
  segment that holds a question mark fails. The empty segment fails the default pattern
  too, but it is answered before the pattern is tested, by the not-found application.
\<close>

theorem rejected_identifier_is_bad_request:
  "(peek_path_info e = name \<and> name \<noteq> [] \<and> name \<noteq> ''api'' \<and> \<not> name_pattern name \<longrightarrow>
      call name_pattern w s e =
        (Inr (BadRequestApp, snd (pop_path_info e)), emit (Log Info_not_allowed) s)
      \<and> instances (snd (call name_pattern w s e)) = instances s
      \<and> events (snd (call name_pattern w s e)) = events s @ [Log Info_not_allowed])
   \<and> (peek_path_info e = [] \<longrightarrow> call name_pattern w s e = (Inr (NotFoundApp, e), s))
   \<and> (CHR ''?'' \<in> set name \<longrightarrow> \<not> default_name_pattern name)
   \<and> \<not> default_name_pattern []"
proof -
  have "\<not> default_name_pattern []" by (simp add: default_name_pattern_def)
  then show ?thesis
    using default_name_pattern_question_mark [of name]
    by (auto simp: call_def get_application_rejected get_application_empty
        instances_emit events_emit)
qed

theorem rejected_identifier_is_bad_request_witness:
  "peek_path_info \<lparr>PATH_INFO = Some ''/a?b/x'', SCRIPT_NAME = Some []\<rparr> = ''a?b''
   \<and> \<not> default_name_pattern ''a?b''
   \<and> call default_name_pattern
        \<lparr>find_one = (\<lambda>u. Returns None), dashapp_deserializer = (\<lambda>b u. Inr ()),
         utcnow_expiry = 0, utcnow_added = 0\<rparr>
        (init None)
        \<lparr>PATH_INFO = Some ''/a?b/x'', SCRIPT_NAME = Some []\<rparr> =
      (Inr (BadRequestApp, \<lparr>PATH_INFO = Some ''/x'', SCRIPT_NAME = Some ''/a?b''\<rparr>),
       emit (Log Info_not_allowed) (init None))"
  using rejected_identifier_is_bad_request
    [of "\<lparr>PATH_INFO = Some ''/a?b/x'', SCRIPT_NAME = Some []\<rparr>" "''a?b''"
        default_name_pattern
        "\<lparr>find_one = (\<lambda>u. Returns None), dashapp_deserializer = (\<lambda>b u. Inr ()),
          utcnow_expiry = 0, utcnow_added = 0\<rparr>"
        "init None"]
    peek_question pop_question
  by simp

theorem empty_identifier_counterexample:
  "\<not> default_name_pattern
       (peek_path_info \<lparr>PATH_INFO = Some ''/'', SCRIPT_NAME = Some []\<rparr>)
   \<and> fst (call default_name_pattern
        \<lparr>find_one = (\<lambda>u. Returns None), dashapp_deserializer = (\<lambda>b u. Inr ()),
         utcnow_expiry = 0, utcnow_added = 0\<rparr>
        (init None)
        \<lparr>PATH_INFO = Some ''/'', SCRIPT_NAME = Some []\<rparr>) =
      Inr (NotFoundApp, \<lparr>PATH_INFO = Some ''/'', SCRIPT_NAME = Some []\<rparr>)
   \<and> NotFoundApp \<noteq> BadRequestApp"
  using peek_slash
  by (simp add: default_name_pattern_def call_def get_application_empty)

section \<open>Which requests have their path segment consumed\<close>

lemma get_application_never_default:
  "fst (get_application name_pattern w s e) \<noteq> Inr (Some NotFoundApp)"
  by (auto simp: get_application_def Let_def
      split: if_splits option.splits prod.splits sum.splits)

lemma get_application_bad_request:
  "fst (get_application name_pattern w s e) = Inr (Some BadRequestApp) \<Longrightarrow>
   peek_path_info e \<noteq> []"
  by (auto simp: get_application_def Let_def
      split: if_splits option.splits prod.splits sum.splits)

lemma peek_path_info_takeWhile:
  "peek_path_info e =
     takeWhile (\<lambda>c. c \<noteq> slash) (lstrip_slash (get_or_empty (PATH_INFO e)))"
proof -
  have tw: "takeWhile (\<lambda>c. c \<noteq> slash) p = p" if "slash \<notin> set p" for p
    using that by (auto simp: takeWhile_eq_all_conv)
  show ?thesis
    by (simp add: peek_path_info_def split1_def tw)
qed

lemma pop_path_info_changes_path:
  assumes "peek_path_info e \<noteq> []"
  shows "PATH_INFO (snd (pop_path_info e)) \<noteq> PATH_INFO e"
proof -
  let ?P = "\<lambda>c. c \<noteq> slash"
  from assms obtain old where old: "PATH_INFO e = Some old"
    by (cases "PATH_INFO e")
      (auto simp: peek_path_info_takeWhile get_or_empty_def lstrip_slash_def)
  let ?path = "lstrip_slash old"
  from assms old have seg: "takeWhile ?P ?path \<noteq> []"
    by (simp add: peek_path_info_takeWhile get_or_empty_def)
  then have ne: "old \<noteq> []"
    by (auto simp: lstrip_slash_def)
  have "length (takeWhile ?P ?path) + length (dropWhile ?P ?path) = length ?path"
    using takeWhile_dropWhile_id [of ?P ?path] length_append
    by metis
  with seg have short: "length (dropWhile ?P ?path) < length ?path"
    by (cases "takeWhile ?P ?path") auto
  have le: "length ?path \<le> length old"
    by (simp add: lstrip_slash_def length_dropWhile_le)
  show ?thesis
  proof (cases "slash \<in> set ?path")
    case False
    with old ne show ?thesis
      by (auto simp: pop_path_info_def Let_def)
  next
    case True
    define new where "new = slash # tl (dropWhile ?P ?path)"
    from True have "dropWhile ?P ?path \<noteq> []" by simp
    then have "length new = length (dropWhile ?P ?path)"
      unfolding new_def by (cases "dropWhile ?P ?path") auto
    with short le have "length new < length old" by linarith
    then have "new \<noteq> old" by auto
    with True old ne show ?thesis
      by (auto simp: pop_path_info_def Let_def new_def)
  qed
qed

text \<open>
  C2, as the code has it: \<open>__call__\<close> consumes the leading path segment whenever
  \<open>get_application\<close> returns an application. A request that ends in the not-found
  response keeps its environment as it was. A rejected request does not: the bad-request
  responder is returned as an application, so it is invoked with the segment consumed, and
  the path it sees differs from the request's.
\<close>

theorem path_consumed_for_every_returned_application:
  "(fst (call name_pattern w s e) = Inr (NotFoundApp, e') \<longrightarrow> e' = e)
   \<and> (fst (call name_pattern w s e) = Inr (BadRequestApp, e') \<longrightarrow>
        e' = snd (pop_path_info e) \<and> PATH_INFO e' \<noteq> PATH_INFO e)
   \<and> (fst (get_application name_pattern w s e) = Inr (Some a) \<longrightarrow>
        fst (call name_pattern w s e) = Inr (a, snd (pop_path_info e)))
   \<and> (fst (get_application name_pattern w s e) = Inr None \<longrightarrow>
        fst (call name_pattern w s e) = Inr (NotFoundApp, e))"
proof -
  obtain r s' where ga: "get_application name_pattern w s e = (r, s')"
    by (cases "get_application name_pattern w s e")
  have nd: "r \<noteq> Inr (Some NotFoundApp)"
    using get_application_never_default [of name_pattern w s e] ga by simp
  have br: "peek_path_info e \<noteq> []" if "r = Inr (Some BadRequestApp)"
    using get_application_bad_request [of name_pattern w s e] ga that by simp
  have ch: "PATH_INFO (snd (pop_path_info e)) \<noteq> PATH_INFO e" if "r = Inr (Some BadRequestApp)"
    using br [OF that] by (rule pop_path_info_changes_path)
  show ?thesis
    using ga nd ch
    by (cases r) (auto simp: call_def split: option.splits)
qed

theorem path_consumed_for_every_returned_application_witness:
  "fst (get_application default_name_pattern
        \<lparr>find_one = (\<lambda>u. Returns None), dashapp_deserializer = (\<lambda>b u. Inr ()),
         utcnow_expiry = 0, utcnow_added = 0\<rparr>
        (init None)
        \<lparr>PATH_INFO = Some ''/demo1/'', SCRIPT_NAME = Some []\<rparr>) = Inr None
   \<and> fst (call default_name_pattern
        \<lparr>find_one = (\<lambda>u. Returns None), dashapp_deserializer = (\<lambda>b u. Inr ()),
         utcnow_expiry = 0, utcnow_added = 0\<rparr>
        (init None)
        \<lparr>PATH_INFO = Some ''/demo1/'', SCRIPT_NAME = Some []\<rparr>) =
      Inr (NotFoundApp, \<lparr>PATH_INFO = Some ''/demo1/'', SCRIPT_NAME = Some []\<rparr>)
   \<and> fst (get_application default_name_pattern
        \<lparr>find_one = (\<lambda>u. Returns None), dashapp_deserializer = (\<lambda>b u. Inr ()),
         utcnow_expiry = 0, utcnow_added = 0\<rparr>
        (init None)
        \<lparr>PATH_INFO = Some ''/a?b/x'', SCRIPT_NAME = Some []\<rparr>) = Inr (Some BadRequestApp)
   \<and> fst (call default_name_pattern
        \<lparr>find_one = (\<lambda>u. Returns None), dashapp_deserializer = (\<lambda>b u. Inr ()),
         utcnow_expiry = 0, utcnow_added = 0\<rparr>
        (init None)
        \<lparr>PATH_INFO = Some ''/a?b/x'', SCRIPT_NAME = Some []\<rparr>) =
      Inr (BadRequestApp, \<lparr>PATH_INFO = Some ''/x'', SCRIPT_NAME = Some ''/a?b''\<rparr>)"
proof -
  have found: "fst (get_application default_name_pattern
        \<lparr>find_one = (\<lambda>u. Returns None), dashapp_deserializer = (\<lambda>b u. Inr ()),
         utcnow_expiry = 0, utcnow_added = 0\<rparr>
        (init None)
        \<lparr>PATH_INFO = Some ''/demo1/'', SCRIPT_NAME = Some []\<rparr>) = Inr None"
    using peek_demo_root default_name_pattern_demo
    by (simp add: get_application_miss [where name = "''demo1''"] init_def
        get_app_from_db_absent [where res = None] dashapp_of_def)
  have "\<not> default_name_pattern ''a?b''"
    by (rule default_name_pattern_question_mark) simp
  then have bad: "fst (get_application default_name_pattern
        \<lparr>find_one = (\<lambda>u. Returns None), dashapp_deserializer = (\<lambda>b u. Inr ()),
         utcnow_expiry = 0, utcnow_added = 0\<rparr>
        (init None)
        \<lparr>PATH_INFO = Some ''/a?b/x'', SCRIPT_NAME = Some []\<rparr>) = Inr (Some BadRequestApp)"
    using peek_question
    by (simp add: get_application_rejected [where name = "''a?b''"])
  have nf: "fst (call default_name_pattern
        \<lparr>find_one = (\<lambda>u. Returns None), dashapp_deserializer = (\<lambda>b u. Inr ()),
         utcnow_expiry = 0, utcnow_added = 0\<rparr>
        (init None)
        \<lparr>PATH_INFO = Some ''/demo1/'', SCRIPT_NAME = Some []\<rparr>) =
      Inr (NotFoundApp, \<lparr>PATH_INFO = Some ''/demo1/'', SCRIPT_NAME = Some []\<rparr>)"
    using found
      path_consumed_for_every_returned_application
        [of default_name_pattern
          "\<lparr>find_one = (\<lambda>u. Returns None), dashapp_deserializer = (\<lambda>b u. Inr ()),
            utcnow_expiry = 0, utcnow_added = 0\<rparr>"
          "init None"
          "\<lparr>PATH_INFO = Some ''/demo1/'', SCRIPT_NAME = Some []\<rparr>"
          "\<lparr>PATH_INFO = Some ''/demo1/'', SCRIPT_NAME = Some []\<rparr>" ApiApp]
    by blast
  have "fst (call default_name_pattern
        \<lparr>find_one = (\<lambda>u. Returns None), dashapp_deserializer = (\<lambda>b u. Inr ()),
         utcnow_expiry = 0, utcnow_added = 0\<rparr>
        (init None)
        \<lparr>PATH_INFO = Some ''/a?b/x'', SCRIPT_NAME = Some []\<rparr>) =
      Inr (BadRequestApp,
        snd (pop_path_info \<lparr>PATH_INFO = Some ''/a?b/x'', SCRIPT_NAME = Some []\<rparr>))"
    using bad
      path_consumed_for_every_returned_application
        [of default_name_pattern
          "\<lparr>find_one = (\<lambda>u. Returns None), dashapp_deserializer = (\<lambda>b u. Inr ()),
            utcnow_expiry = 0, utcnow_added = 0\<rparr>"
          "init None"
          "\<lparr>PATH_INFO = Some ''/a?b/x'', SCRIPT_NAME = Some []\<rparr>"
          "\<lparr>PATH_INFO = Some ''/x'', SCRIPT_NAME = Some ''/a?b''\<rparr>" BadRequestApp]
    by blast
  then have br: "fst (call default_name_pattern
        \<lparr>find_one = (\<lambda>u. Returns None), dashapp_deserializer = (\<lambda>b u. Inr ()),
         utcnow_expiry = 0, utcnow_added = 0\<rparr>
        (init None)
        \<lparr>PATH_INFO = Some ''/a?b/x'', SCRIPT_NAME = Some []\<rparr>) =
      Inr (BadRequestApp, \<lparr>PATH_INFO = Some ''/x'', SCRIPT_NAME = Some ''/a?b''\<rparr>)"
    by (simp only: pop_question)
  from found nf bad br show ?thesis by blast
qed

theorem rejected_request_path_counterexample:
  "fst (call default_name_pattern
        \<lparr>find_one = (\<lambda>u. Returns None), dashapp_deserializer = (\<lambda>b u. Inr ()),
         utcnow_expiry = 0, utcnow_added = 0\<rparr>
        (init None)
        \<lparr>PATH_INFO = Some ''/a?b/x'', SCRIPT_NAME = Some []\<rparr>) =
      Inr (BadRequestApp, \<lparr>PATH_INFO = Some ''/x'', SCRIPT_NAME = Some ''/a?b''\<rparr>)
   \<and> PATH_INFO \<lparr>PATH_INFO = Some ''/x'', SCRIPT_NAME = Some ''/a?b''\<rparr> \<noteq>
      PATH_INFO \<lparr>PATH_INFO = Some ''/a?b/x'', SCRIPT_NAME = Some []\<rparr>"
proof -
  have "\<not> default_name_pattern ''a?b''"
    by (rule default_name_pattern_question_mark) simp
  then show ?thesis
    using peek_question pop_question
    by (simp add: call_def get_application_rejected [where name = "''a?b''"])
qed

section \<open>Requests that end in not-found\<close>

text \<open>
  C3, as the code has it: a request with an empty first segment ends in the not-found
  response and changes nothing. A request for a valid tenant without a stored definition
  ends in the not-found response with the cache unchanged when the cache holds no entry for
  the tenant; when the cache holds an entry that the expiry test discards (a root-page
  request past the retention period), the response is not-found and the cache has lost
  exactly that entry; when the cache holds an entry that is kept, the cached application is
  served and the dispatcher is unchanged.
\<close>

theorem not_found_and_the_cache:
  "(peek_path_info e = [] \<longrightarrow> call name_pattern w s e = (Inr (NotFoundApp, e), s))
   \<and> (peek_path_info e = name \<and> name \<noteq> [] \<and> name \<noteq> ''api'' \<and> name_pattern name
        \<and> find_one w name = Returns res \<and> dashapp_of res = None \<longrightarrow>
        (instances s name = None \<longrightarrow>
           fst (call name_pattern w s e) = Inr (NotFoundApp, e)
           \<and> instances (snd (call name_pattern w s e)) = instances s)
        \<and> (expired w s e (instances s name) \<longrightarrow>
           fst (call name_pattern w s e) = Inr (NotFoundApp, e)
           \<and> instances (snd (call name_pattern w s e)) = (instances s)(name := None))
        \<and> (\<forall>i. instances s name = Some i \<and> \<not> expired w s e (Some i) \<longrightarrow>
           call name_pattern w s e = (Inr (DashApp (app i), snd (pop_path_info e)), s)))"
  by (auto simp: call_def get_application_empty get_application_miss get_application_expired
      get_application_hit get_app_from_db_absent instances_emit)

theorem not_found_and_the_cache_witness:
  "peek_path_info \<lparr>PATH_INFO = Some ''/demo1/'', SCRIPT_NAME = Some []\<rparr> = ''demo1''
   \<and> default_name_pattern ''demo1''
   \<and> dashapp_of None = None
   \<and> instances (init None) ''demo1'' = None
   \<and> fst (call default_name_pattern
        \<lparr>find_one = (\<lambda>u. Returns None), dashapp_deserializer = (\<lambda>b u. Inr ()),
         utcnow_expiry = 0, utcnow_added = 0\<rparr>
        (init None)
        \<lparr>PATH_INFO = Some ''/demo1/'', SCRIPT_NAME = Some []\<rparr>) =
      Inr (NotFoundApp, \<lparr>PATH_INFO = Some ''/demo1/'', SCRIPT_NAME = Some []\<rparr>)
   \<and> instances (snd (call default_name_pattern
        \<lparr>find_one = (\<lambda>u. Returns None), dashapp_deserializer = (\<lambda>b u. Inr ()),
         utcnow_expiry = 0, utcnow_added = 0\<rparr>
        (init None)
        \<lparr>PATH_INFO = Some ''/demo1/'', SCRIPT_NAME = Some []\<rparr>)) =
      instances (init None)
   \<and> expired
        \<lparr>find_one = (\<lambda>u. Returns None), dashapp_deserializer = (\<lambda>b u. Inr ()),
         utcnow_expiry = 3600000001, utcnow_added = 3600000002\<rparr>
        ((init None)\<lparr>instances :=
            [''demo1'' \<mapsto> \<lparr>app = Handler 0 ''demo1'' ''blob1'', added = 0\<rparr>]\<rparr>)
        \<lparr>PATH_INFO = Some ''/demo1/'', SCRIPT_NAME = Some []\<rparr>
        (Some \<lparr>app = Handler 0 ''demo1'' ''blob1'', added = 0\<rparr>)
   \<and> instances (snd (call default_name_pattern
        \<lparr>find_one = (\<lambda>u. Returns None), dashapp_deserializer = (\<lambda>b u. Inr ()),
         utcnow_expiry = 3600000001, utcnow_added = 3600000002\<rparr>
        ((init None)\<lparr>instances :=
            [''demo1'' \<mapsto> \<lparr>app = Handler 0 ''demo1'' ''blob1'', added = 0\<rparr>]\<rparr>)
        \<lparr>PATH_INFO = Some ''/demo1/'', SCRIPT_NAME = Some []\<rparr>)) =
      [''demo1'' \<mapsto> \<lparr>app = Handler 0 ''demo1'' ''blob1'', added = 0\<rparr>](''demo1'' := None)"
  using not_found_and_the_cache
    [of "\<lparr>PATH_INFO = Some ''/demo1/'', SCRIPT_NAME = Some []\<rparr>" default_name_pattern
        "\<lparr>find_one = (\<lambda>u. Returns None), dashapp_deserializer = (\<lambda>b u. Inr ()),
          utcnow_expiry = 0, utcnow_added = 0\<rparr>"
        "init None" "''demo1''" None]
    not_found_and_the_cache
    [of "\<lparr>PATH_INFO = Some ''/demo1/'', SCRIPT_NAME = Some []\<rparr>" default_name_pattern
        "\<lparr>find_one = (\<lambda>u. Returns None), dashapp_deserializer = (\<lambda>b u. Inr ()),
          utcnow_expiry = 3600000001, utcnow_added = 3600000002\<rparr>"
        "(init None)\<lparr>instances :=
            [''demo1'' \<mapsto> \<lparr>app = Handler 0 ''demo1'' ''blob1'', added = 0\<rparr>]\<rparr>"
        "''demo1''" None]
    peek_demo_root default_name_pattern_demo is_main_page_demo_root
  by (simp add: init_def dashapp_of_def expired_def timedelta_minutes_def
      RETENTION_PERIOD_MIN_def)

theorem expired_entry_not_found_counterexample:
  "peek_path_info \<lparr>PATH_INFO = Some ''/demo1/'', SCRIPT_NAME = Some []\<rparr> = ''demo1''
   \<and> fst (call default_name_pattern
        \<lparr>find_one = (\<lambda>u. Returns None), dashapp_deserializer = (\<lambda>b u. Inr ()),
         utcnow_expiry = 3600000001, utcnow_added = 3600000002\<rparr>
        ((init None)\<lparr>instances :=
            [''demo1'' \<mapsto> \<lparr>app = Handler 0 ''demo1'' ''blob1'', added = 0\<rparr>]\<rparr>)
        \<lparr>PATH_INFO = Some ''/demo1/'', SCRIPT_NAME = Some []\<rparr>) =
      Inr (NotFoundApp, \<lparr>PATH_INFO = Some ''/demo1/'', SCRIPT_NAME = Some []\<rparr>)
   \<and> instances ((init None)\<lparr>instances :=
            [''demo1'' \<mapsto> \<lparr>app = Handler 0 ''demo1'' ''blob1'', added = 0\<rparr>]\<rparr>) ''demo1'' =
      Some \<lparr>app = Handler 0 ''demo1'' ''blob1'', added = 0\<rparr>
   \<and> instances (snd (call default_name_pattern
        \<lparr>find_one = (\<lambda>u. Returns None), dashapp_deserializer = (\<lambda>b u. Inr ()),
         utcnow_expiry = 3600000001, utcnow_added = 3600000002\<rparr>
        ((init None)\<lparr>instances :=
            [''demo1'' \<mapsto> \<lparr>app = Handler 0 ''demo1'' ''blob1'', added = 0\<rparr>]\<rparr>)
        \<lparr>PATH_INFO = Some ''/demo1/'', SCRIPT_NAME = Some []\<rparr>)) ''demo1'' = None"
  using peek_demo_root default_name_pattern_demo is_main_page_demo_root
  by (simp add: call_def get_application_expired [where name = "''demo1''"]
      get_app_from_db_absent [where res = None] dashapp_of_def instances_emit
      init_def expired_def timedelta_minutes_def RETENTION_PERIOD_MIN_def)

section \<open>Expiry\<close>

lemma expired_Some:
  "expired w s e (Some i) =
     (is_main_page e \<and> added i + retention_period s < utcnow_expiry w)"
  by (auto simp: expired_def)


lemma get_application_first_build:
  assumes "peek_path_info e = name" and "name \<noteq> []" and "name \<noteq> ''api''"
    and "name_pattern name" and "instances s name = None"
    and "find_one w name = Returns res" and "dashapp_of res = Some b"
    and "dashapp_deserializer w b name = Inr u"
  shows "get_application name_pattern w s e =
           (Inr (Some (DashApp (Handler (allocated s) name b))),
            s\<lparr>instances :=
                 (instances s)(name \<mapsto>
                    \<lparr>app = Handler (allocated s) name b, added = utcnow_added w\<rparr>),
               events := events s @ [Find_one name, Deserialize b name, Log (Info_got name)],
               allocated := Suc (allocated s)\<rparr>)"
proof -
  have db: "get_app_from_db w s name =
      (Inr (Some (Handler (allocated s) name b)),
       (emit (Deserialize b name) (emit (Find_one name) s))\<lparr>allocated := Suc (allocated s)\<rparr>)"
    using assms(6-8) by (rule get_app_from_db_built)
  have "get_application name_pattern w s e =
      (case get_app_from_db w s name of
        (Inl err, s2) \<Rightarrow> (Inl err, s2)
      | (Inr None, s2) \<Rightarrow> (Inr None, s2)
      | (Inr (Some a), s2) \<Rightarrow>
          (Inr (Some (DashApp a)),
           emit (Log (Info_got name))
             (s2\<lparr>instances := (instances s2)(name \<mapsto> \<lparr>app = a, added = utcnow_added w\<rparr>)\<rparr>)))"
    using assms(1-5) by (rule get_application_miss)
  then show ?thesis
    unfolding db by (simp add: emit_def)
qed

section \<open>Entries change only by a build\<close>

lemma get_app_from_db_Some:
  "get_app_from_db w s n = (Inr (Some a), s2) \<Longrightarrow>
   ident a = allocated s \<and> allocated s2 = Suc (allocated s) \<and> instances s2 = instances s"
  by (auto simp: get_app_from_db_def Let_def emit_def
      split: find_outcome.splits option.splits sum.splits)

lemma install_same_key:
  assumes none: "instances s1 name = None"
    and some: "instances (snd (case get_app_from_db w s1 name of
        (Inl err, s2) \<Rightarrow> (Inl err, s2)
      | (Inr None, s2) \<Rightarrow> (Inr None, s2)
      | (Inr (Some a), s2) \<Rightarrow>
          (Inr (Some (DashApp a)),
           emit (Log (Info_got name))
             (s2\<lparr>instances := (instances s2)(name \<mapsto> \<lparr>app = a, added = t\<rparr>)\<rparr>)))) name
       = Some i'"
  shows "added i' = t \<and> ident (app i') = allocated s1
     \<and> allocated (snd (case get_app_from_db w s1 name of
        (Inl err, s2) \<Rightarrow> (Inl err, s2)
      | (Inr None, s2) \<Rightarrow> (Inr None, s2)
      | (Inr (Some a), s2) \<Rightarrow>
          (Inr (Some (DashApp a)),
           emit (Log (Info_got name))
             (s2\<lparr>instances := (instances s2)(name \<mapsto> \<lparr>app = a, added = t\<rparr>)\<rparr>))))
       = Suc (allocated s1)"
proof -
  obtain r s2 where db: "get_app_from_db w s1 name = (r, s2)"
    by (cases "get_app_from_db w s1 name")
  with get_app_from_db_instances [of w s1 name] have same: "instances s2 = instances s1"
    by simp
  show ?thesis
  proof (cases r)
    case (Inl err)
    with db same none some show ?thesis by simp
  next
    case (Inr opt)
    show ?thesis
    proof (cases opt)
      case None
      with Inr db same none some show ?thesis by simp
    next
      case (Some a)
      with Inr db have "get_app_from_db w s1 name = (Inr (Some a), s2)" by simp
      then have "ident a = allocated s1 \<and> allocated s2 = Suc (allocated s1)"
        using get_app_from_db_Some by blast
      with Some Inr db some show ?thesis
        by (auto simp: instances_emit allocated_emit)
    qed
  qed
qed

lemma entry_changes_only_by_build:
  assumes some: "instances (snd (get_application name_pattern w s e)) k = Some i'"
  shows "instances s k = Some i' \<or>
     (k = peek_path_info e \<and> added i' = utcnow_added w \<and> ident (app i') = allocated s
      \<and> allocated (snd (get_application name_pattern w s e)) = Suc (allocated s))"
proof (cases "k = peek_path_info e")
  case False
  with some get_application_other_key [of k e name_pattern w s] show ?thesis by simp
next
  case True
  let ?name = "peek_path_info e"
  consider (empty) "?name = []"
    | (api) "?name = ''api''"
    | (rejected) "?name \<noteq> []" "?name \<noteq> ''api''" "\<not> name_pattern ?name"
    | (gone) "?name \<noteq> []" "?name \<noteq> ''api''" "name_pattern ?name"
        "expired w s e (instances s ?name)"
    | (miss) "?name \<noteq> []" "?name \<noteq> ''api''" "name_pattern ?name"
        "instances s ?name = None"
    | (hit) i where "?name \<noteq> []" "?name \<noteq> ''api''" "name_pattern ?name"
        "instances s ?name = Some i" "\<not> expired w s e (Some i)"
    by (cases "instances s ?name") auto
  then show ?thesis
  proof cases
    case empty
    with some show ?thesis by (simp add: get_application_empty)
  next
    case api
    with some show ?thesis by (simp add: get_application_api instances_emit)
  next
    case rejected
    with some show ?thesis by (simp add: get_application_rejected instances_emit)
  next
    case gone
    let ?s1 = "(emit (Log (Info_expired ?name)) s)\<lparr>instances := (instances s)(?name := None)\<rparr>"
    have none: "instances ?s1 ?name = None" by simp
    have alloc: "allocated ?s1 = allocated s" by (simp add: emit_def)
    from some True gone
    have "instances (snd (case get_app_from_db w ?s1 ?name of
        (Inl err, s2) \<Rightarrow> (Inl err, s2)
      | (Inr None, s2) \<Rightarrow> (Inr None, s2)
      | (Inr (Some a), s2) \<Rightarrow>
          (Inr (Some (DashApp a)),
           emit (Log (Info_got ?name))
             (s2\<lparr>instances := (instances s2)(?name \<mapsto> \<lparr>app = a, added = utcnow_added w\<rparr>)\<rparr>))))
        ?name = Some i'"
      by (simp add: get_application_expired [OF refl])
    from install_same_key [OF none this] True gone alloc show ?thesis
      by (simp add: get_application_expired [OF refl])
  next
    case miss
    from some True miss
    have "instances (snd (case get_app_from_db w s ?name of
        (Inl err, s2) \<Rightarrow> (Inl err, s2)
      | (Inr None, s2) \<Rightarrow> (Inr None, s2)
      | (Inr (Some a), s2) \<Rightarrow>
          (Inr (Some (DashApp a)),
           emit (Log (Info_got ?name))
             (s2\<lparr>instances := (instances s2)(?name \<mapsto> \<lparr>app = a, added = utcnow_added w\<rparr>)\<rparr>))))
        ?name = Some i'"
      by (simp add: get_application_miss [OF refl])
    from install_same_key [OF miss(4) this] True miss show ?thesis
      by (simp add: get_application_miss [OF refl])
  next
    case hit
    with some show ?thesis by (simp add: get_application_hit [OF refl])
  qed
qed

section \<open>First resolve, then cache hits\<close>

text \<open>
  C9: for a valid identifier whose definition is stored and buildable and that has no cache
  entry, the first resolve calls the store once and the deserializer once, allocates one
  handler and installs it with the clock reading at installation. A second resolve on a
  path that is not a root page, or within the retention period, returns that same handler
  and leaves the dispatcher, so also the entry and its \<open>added\<close>, as the first resolve left
  it. In any request, an entry that the cache holds afterwards and did not hold before was
  installed by a build of that request: its \<open>added\<close> is that request's clock reading and
  its handler is the one allocated by it.
\<close>

theorem first_resolve_builds_once_then_hits:
  assumes "peek_path_info e1 = name" and "peek_path_info e2 = name"
    and "name \<noteq> []" and "name \<noteq> ''api''" and "name_pattern name"
    and "instances s name = None"
    and "find_one w1 name = Returns res" and "dashapp_of res = Some b"
    and "dashapp_deserializer w1 b name = Inr u"
  shows "get_application name_pattern w1 s e1 =
           (Inr (Some (DashApp (Handler (allocated s) name b))),
            s\<lparr>instances :=
                 (instances s)(name \<mapsto>
                    \<lparr>app = Handler (allocated s) name b, added = utcnow_added w1\<rparr>),
               events := events s @ [Find_one name, Deserialize b name, Log (Info_got name)],
               allocated := Suc (allocated s)\<rparr>)
       \<and> ((\<not> is_main_page e2 \<or> utcnow_expiry w2 \<le> utcnow_added w1 + retention_period s) \<longrightarrow>
            get_application name_pattern w2 (snd (get_application name_pattern w1 s e1)) e2 =
              (Inr (Some (DashApp (Handler (allocated s) name b))),
               snd (get_application name_pattern w1 s e1)))
       \<and> (\<forall>k i'. instances (snd (get_application name_pattern w3 s3 e3)) k = Some i' \<longrightarrow>
            instances s3 k = Some i' \<or>
            (k = peek_path_info e3 \<and> added i' = utcnow_added w3
             \<and> ident (app i') = allocated s3
             \<and> allocated (snd (get_application name_pattern w3 s3 e3)) = Suc (allocated s3)))"
proof -
  let ?h = "Handler (allocated s) name b"
  let ?s1 = "s\<lparr>instances := (instances s)(name \<mapsto> \<lparr>app = ?h, added = utcnow_added w1\<rparr>),
               events := events s @ [Find_one name, Deserialize b name, Log (Info_got name)],
               allocated := Suc (allocated s)\<rparr>"
  have first: "get_application name_pattern w1 s e1 = (Inr (Some (DashApp ?h)), ?s1)"
    using assms(1,3-9) by (rule get_application_first_build)
  have second: "get_application name_pattern w2 ?s1 e2 = (Inr (Some (DashApp ?h)), ?s1)"
    if "\<not> is_main_page e2 \<or> utcnow_expiry w2 \<le> utcnow_added w1 + retention_period s"
  proof -
    have entry: "instances ?s1 name = Some \<lparr>app = ?h, added = utcnow_added w1\<rparr>"
      by simp
    have "\<not> expired w2 ?s1 e2 (Some \<lparr>app = ?h, added = utcnow_added w1\<rparr>)"
      using that by (auto simp: expired_Some)
    with assms(2-5) entry
    have "get_application name_pattern w2 ?s1 e2 =
        (Inr (Some (DashApp (app \<lparr>app = ?h, added = utcnow_added w1\<rparr>))), ?s1)"
      by (rule get_application_hit)
    then show ?thesis by simp
  qed
  have third: "\<forall>k i'. instances (snd (get_application name_pattern w3 s3 e3)) k = Some i' \<longrightarrow>
            instances s3 k = Some i' \<or>
            (k = peek_path_info e3 \<and> added i' = utcnow_added w3
             \<and> ident (app i') = allocated s3
             \<and> allocated (snd (get_application name_pattern w3 s3 e3)) = Suc (allocated s3))"
    using entry_changes_only_by_build by blast
  from first second third show ?thesis
    by (simp only: snd_conv) blast
qed

theorem first_resolve_builds_once_then_hits_witness:
  "get_application default_name_pattern
        \<lparr>find_one = (\<lambda>u. Returns (Some [(''uid'', ''demo1''), (''dashapp'', ''blob1'')])),
         dashapp_deserializer = (\<lambda>b u. Inr ()), utcnow_expiry = 0, utcnow_added = 0\<rparr>
        (init None)
        \<lparr>PATH_INFO = Some ''/demo1/'', SCRIPT_NAME = Some []\<rparr> =
      (Inr (Some (DashApp (Handler 0 ''demo1'' ''blob1''))),
       (init None)\<lparr>instances :=
            [''demo1'' \<mapsto> \<lparr>app = Handler 0 ''demo1'' ''blob1'', added = 0\<rparr>],
          events := [Find_one ''demo1'', Deserialize ''blob1'' ''demo1'', Log (Info_got ''demo1'')],
          allocated := 1\<rparr>)
   \<and> get_application default_name_pattern
        \<lparr>find_one = (\<lambda>u. Returns (Some [(''uid'', ''demo1''), (''dashapp'', ''blob1'')])),
         dashapp_deserializer = (\<lambda>b u. Inr ()),
         utcnow_expiry = 1800000000, utcnow_added = 1800000001\<rparr>
        ((init None)\<lparr>instances :=
            [''demo1'' \<mapsto> \<lparr>app = Handler 0 ''demo1'' ''blob1'', added = 0\<rparr>],
          events := [Find_one ''demo1'', Deserialize ''blob1'' ''demo1'', Log (Info_got ''demo1'')],
          allocated := 1\<rparr>)
        \<lparr>PATH_INFO = Some ''/demo1/assets/x.js'', SCRIPT_NAME = Some []\<rparr> =
      (Inr (Some (DashApp (Handler 0 ''demo1'' ''blob1''))),
       (init None)\<lparr>instances :=
            [''demo1'' \<mapsto> \<lparr>app = Handler 0 ''demo1'' ''blob1'', added = 0\<rparr>],
          events := [Find_one ''demo1'', Deserialize ''blob1'' ''demo1'', Log (Info_got ''demo1'')],
          allocated := 1\<rparr>)"
proof -
  let ?W1 = "\<lparr>find_one = (\<lambda>u. Returns (Some [(''uid'', ''demo1''), (''dashapp'', ''blob1'')])),
         dashapp_deserializer = (\<lambda>b u. Inr ()), utcnow_expiry = 0, utcnow_added = 0\<rparr>"
  let ?W2 = "\<lparr>find_one = (\<lambda>u. Returns (Some [(''uid'', ''demo1''), (''dashapp'', ''blob1'')])),
         dashapp_deserializer = (\<lambda>b u. Inr ()),
         utcnow_expiry = 1800000000, utcnow_added = 1800000001\<rparr>"
  let ?root = "\<lparr>PATH_INFO = Some ''/demo1/'', SCRIPT_NAME = Some []\<rparr>"
  let ?sub = "\<lparr>PATH_INFO = Some ''/demo1/assets/x.js'', SCRIPT_NAME = Some []\<rparr>"
  let ?S1 = "(init None)\<lparr>instances :=
            [''demo1'' \<mapsto> \<lparr>app = Handler 0 ''demo1'' ''blob1'', added = 0\<rparr>],
          events := [Find_one ''demo1'', Deserialize ''blob1'' ''demo1'', Log (Info_got ''demo1'')],
          allocated := 1\<rparr>"
  have n1: "''demo1'' \<noteq> []" and n2: "''demo1'' \<noteq> ''api''" by simp_all
  have none: "instances (init None) ''demo1'' = None" by (simp add: init_def)
  have f: "find_one ?W1 ''demo1'' =
      Returns (Some [(''uid'', ''demo1''), (''dashapp'', ''blob1'')])" by simp
  have d: "dashapp_of (Some [(''uid'', ''demo1''), (''dashapp'', ''blob1'')]) = Some ''blob1''"
    by (simp add: dashapp_of_def)
  have u: "dashapp_deserializer ?W1 ''blob1'' ''demo1'' = Inr ()" by simp
  note T = first_resolve_builds_once_then_hits
      [where name_pattern = default_name_pattern and name = "''demo1''"
        and s = "init None" and ?w1.0 = ?W1 and ?w2.0 = ?W2
        and ?e1.0 = ?root and ?e2.0 = ?sub
        and res = "Some [(''uid'', ''demo1''), (''dashapp'', ''blob1'')]"
        and b = "''blob1''" and u = "()",
        OF peek_demo_root peek_demo_asset n1 n2 default_name_pattern_demo none f d u]
  have first: "get_application default_name_pattern ?W1 (init None) ?root =
      (Inr (Some (DashApp (Handler 0 ''demo1'' ''blob1''))), ?S1)"
    using T [THEN conjunct1] by (simp add: init_def)
  have "\<not> is_main_page ?sub \<or>
      utcnow_expiry ?W2 \<le> utcnow_added ?W1 + retention_period (init None)"
    using not_main_page_demo_asset by simp
  with T [THEN conjunct2, THEN conjunct1]
  have "get_application default_name_pattern ?W2
          (snd (get_application default_name_pattern ?W1 (init None) ?root)) ?sub =
        (Inr (Some (DashApp (Handler (allocated (init None)) ''demo1'' ''blob1''))),
         snd (get_application default_name_pattern ?W1 (init None) ?root))"
    by blast
  then have "get_application default_name_pattern ?W2 ?S1 ?sub =
      (Inr (Some (DashApp (Handler (allocated (init None)) ''demo1'' ''blob1''))), ?S1)"
    by (simp only: first snd_conv)
  then have second: "get_application default_name_pattern ?W2 ?S1 ?sub =
      (Inr (Some (DashApp (Handler 0 ''demo1'' ''blob1''))), ?S1)"
    by (simp add: init_def)
  from first second show ?thesis by blast
qed

section \<open>Sub-resource paths that end in a slash\<close>

lemma lstrip_slash_segment:
  assumes "name \<noteq> []" and "slash \<notin> set name"
  shows "lstrip_slash (slash # name @ rest) = name @ rest"
  using assms by (cases name) (auto simp: lstrip_slash_def)

lemma takeWhile_segment:
  "slash \<notin> set name \<Longrightarrow> takeWhile (\<lambda>c. c \<noteq> slash) (name @ slash # rest) = name"
  by (induction name) auto

lemma dropWhile_segment:
  "slash \<notin> set name \<Longrightarrow> dropWhile (\<lambda>c. c \<noteq> slash) (name @ slash # rest) = slash # rest"
  by (induction name) auto

text \<open>
  C5: the claim is that the age check fires for the tenant's mount root only, and never
  for a path with something after the tenant segment. The test looks at the end of the
  path, not at what follows the tenant segment: every path \<open>/name/rest/\<close> that ends in a
  slash is taken for the main page, whatever \<open>rest\<close> is, although the handler is
  forwarded the non-empty remainder \<open>/rest/\<close>; for such a request the expiry test comes
  down to the age comparison alone.
\<close>

theorem trailing_slash_subresource_is_main_page:
  assumes "PATH_INFO e = Some (slash # name @ slash # rest @ [slash])"
    and "name \<noteq> []" and "slash \<notin> set name"
  shows "is_main_page e
       \<and> peek_path_info e = name
       \<and> PATH_INFO (snd (pop_path_info e)) = Some (slash # rest @ [slash])
       \<and> expired w s e (Some i) = (added i + retention_period s < utcnow_expiry w)"
proof -
  let ?path = "slash # name @ slash # rest @ [slash]"
  have path: "get_path_info e = ?path"
    using assms(1) by (simp add: get_path_info_def get_or_empty_def)
  have main: "is_main_page e"
    by (simp add: is_main_page_iff path)
  have strip: "lstrip_slash ?path = name @ slash # rest @ [slash]"
    using assms(2,3) by (rule lstrip_slash_segment)
  have peek: "peek_path_info e = name"
    using assms(1,3)
    by (simp add: peek_path_info_takeWhile get_or_empty_def strip takeWhile_segment)
  have pop: "PATH_INFO (snd (pop_path_info e)) = Some (slash # rest @ [slash])"
    using assms(1,3)
    by (simp add: pop_path_info_def Let_def strip dropWhile_segment)
  from main peek pop show ?thesis
    by (simp add: expired_Some)
qed

theorem trailing_slash_subresource_is_main_page_witness:
  "is_main_page \<lparr>PATH_INFO = Some ''/demo1/assets/'', SCRIPT_NAME = Some []\<rparr>
   \<and> peek_path_info \<lparr>PATH_INFO = Some ''/demo1/assets/'', SCRIPT_NAME = Some []\<rparr> = ''demo1''
   \<and> PATH_INFO (snd (pop_path_info
        \<lparr>PATH_INFO = Some ''/demo1/assets/'', SCRIPT_NAME = Some []\<rparr>)) = Some ''/assets/''
   \<and> expired
        \<lparr>find_one = (\<lambda>u. Returns None), dashapp_deserializer = (\<lambda>b u. Inr ()),
         utcnow_expiry = 3600000001, utcnow_added = 3600000002\<rparr>
        ((init None)\<lparr>instances :=
            [''demo1'' \<mapsto> \<lparr>app = Handler 0 ''demo1'' ''blob1'', added = 0\<rparr>]\<rparr>)
        \<lparr>PATH_INFO = Some ''/demo1/assets/'', SCRIPT_NAME = Some []\<rparr>
        (Some \<lparr>app = Handler 0 ''demo1'' ''blob1'', added = 0\<rparr>)"
proof -
  have path: "PATH_INFO \<lparr>PATH_INFO = Some ''/demo1/assets/'', SCRIPT_NAME = Some []\<rparr> =
      Some (slash # ''demo1'' @ slash # ''assets'' @ [slash])"
    by (simp add: slash_def)
  have n: "''demo1'' \<noteq> []" by simp
  have ns: "slash \<notin> set ''demo1''" by (simp add: slash_def)
  note T = trailing_slash_subresource_is_main_page [OF path n ns,
      where w = "\<lparr>find_one = (\<lambda>u. Returns None), dashapp_deserializer = (\<lambda>b u. Inr ()),
         utcnow_expiry = 3600000001, utcnow_added = 3600000002\<rparr>"
      and s = "(init None)\<lparr>instances :=
            [''demo1'' \<mapsto> \<lparr>app = Handler 0 ''demo1'' ''blob1'', added = 0\<rparr>]\<rparr>"
      and i = "\<lparr>app = Handler 0 ''demo1'' ''blob1'', added = 0\<rparr>"]
  have rest: "slash # ''assets'' @ [slash] = ''/assets/''" by (simp add: slash_def)
  have age: "added \<lparr>app = Handler 0 ''demo1'' ''blob1'', added = 0\<rparr> +
      retention_period ((init None)\<lparr>instances :=
            [''demo1'' \<mapsto> \<lparr>app = Handler 0 ''demo1'' ''blob1'', added = 0\<rparr>]\<rparr>)
      < utcnow_expiry \<lparr>find_one = (\<lambda>u. Returns None), dashapp_deserializer = (\<lambda>b u. Inr ()),
         utcnow_expiry = 3600000001, utcnow_added = 3600000002\<rparr>"
    by (simp add: init_def timedelta_minutes_def RETENTION_PERIOD_MIN_def)
  from T age show ?thesis
    unfolding rest by blast
qed

section \<open>Expiry on the tenant's root page\<close>











end
